theory Spec2Isabelle
  imports Main "HOL-Library.Word"
begin

section \<open>The LoRa module of the RAK4631 deep-sleep node (lora.cpp)\<close>

text \<open>
  The module keeps its state in file-level globals and talks to four collaborators that
  are not part of the source: the SX126x radio driver (\<open>Radio.*\<close>,
  \<open>lora_rak4630_init\<close>), FreeRTOS (\<open>xSemaphore*\<close>, \<open>xTaskCreate\<close>), the Arduino core
  (\<open>millis\<close>, \<open>delay\<close>, \<open>digitalWrite\<close>, \<open>attachInterrupt\<close>) and the logging macro
  \<open>myLog_d\<close> of main.h. Every call out of the module is recorded, in program order, in a
  trace; what a collaborator returns is a parameter of the function that calls it. The
  trace also records, at their place among the calls, the stores to the transmit buffer
  and to the two time markers, so that a state tells in which order they were made.

  \<open>TX_ONLY\<close> is defined at the top of lora.cpp, so of every \<open>#ifdef TX_ONLY\<close> only the
  first branch is compiled and modelled. \<open>MYLOG_LOG_LEVEL\<close> comes from main.h and is
  not fixed by the source: it is the configuration below.
\<close>

subsection \<open>Configuration\<close>

record config =
  log_enabled :: bool  \<comment> \<open>\<open>MYLOG_LOG_LEVEL > MYLOG_LOG_LEVEL_NONE\<close>\<close>
  log_debug :: bool  \<comment> \<open>\<open>myLog_d\<close> expands to a call of the logger\<close>

definition RF_FREQUENCY :: nat where "RF_FREQUENCY = 923300000"
definition TX_OUTPUT_POWER :: int where "TX_OUTPUT_POWER = 22"
definition LORA_BANDWIDTH :: nat where "LORA_BANDWIDTH = 0"
definition LORA_SPREADING_FACTOR :: nat where "LORA_SPREADING_FACTOR = 7"
definition LORA_CODINGRATE :: nat where "LORA_CODINGRATE = 1"
definition LORA_PREAMBLE_LENGTH :: nat where "LORA_PREAMBLE_LENGTH = 8"
definition LORA_SYMBOL_TIMEOUT :: nat where "LORA_SYMBOL_TIMEOUT = 0"
definition LORA_FIX_LENGTH_PAYLOAD_ON :: bool where "LORA_FIX_LENGTH_PAYLOAD_ON = False"
definition LORA_IQ_INVERSION_ON :: bool where "LORA_IQ_INVERSION_ON = False"
definition TX_TIMEOUT_VALUE :: nat where "TX_TIMEOUT_VALUE = 5000"
definition PIN_LORA_DIO_1 :: nat where "PIN_LORA_DIO_1 = 47"

subsection \<open>The radio driver, as the module sees it\<close>

datatype cad_symbols = LORA_CAD_01_SYMBOL | LORA_CAD_02_SYMBOL | LORA_CAD_04_SYMBOL
  | LORA_CAD_08_SYMBOL | LORA_CAD_16_SYMBOL

datatype cad_exit_mode = LORA_CAD_ONLY | LORA_CAD_RX

text \<open>
  The entry points of the driver facade. \<open>Send\<close> carries the bytes the driver is told to
  transmit (the first \<open>size\<close> bytes at the pointer) and the size argument itself.
\<close>

datatype radio_call =
    Init
  | Sleep
  | Standby
  | SetChannel nat
  | SetTxConfig int nat nat nat nat bool bool bool nat
  | SetRxConfig nat nat nat nat nat bool bool bool bool
  | SetCadParams cad_symbols "8 word" "8 word" cad_exit_mode "32 word"
  | StartCad
  | Send "8 word list" nat
  | IrqProcessAfterDeepSleep

datatype RadioState = Idle | Sleeping | ConfiguringTx | ConfiguringRx | ConfiguringCad
  | Cad | Sending | Receiving

text \<open>
  Modelled from the spec: the driver's state machine is not in the source, which tracks
  the radio only through the sequence of driver calls. Following sections 3 and 4.3 of
  the specification, \<open>sleep\<close> leaves the radio Sleeping, \<open>startCad\<close> in Cad, \<open>send\<close>
  Sending, and the configuration calls in the matching configuring state; polling the
  driver does not by itself change the state.
\<close>

fun radio_after :: "radio_call \<Rightarrow> RadioState \<Rightarrow> RadioState" where
  "radio_after Init r = Idle"
| "radio_after Sleep r = Sleeping"
| "radio_after Standby r = Idle"
| "radio_after (SetChannel f) r = r"
| "radio_after (SetTxConfig p b d c l f crc iq t) r = ConfiguringTx"
| "radio_after (SetRxConfig b d c l st f crc iq cont) r = ConfiguringRx"
| "radio_after (SetCadParams n p m e t) r = ConfiguringCad"
| "radio_after StartCad r = Cad"
| "radio_after (Send buf n) r = Sending"
| "radio_after IrqProcessAfterDeepSleep r = r"

subsection \<open>Calls out of the module\<close>

datatype sem_id = LoraEvent | TaskEvent

datatype ticks = Ticks nat | portMAX_DELAY

datatype event =
    RadioCall radio_call
  | LoraRak4630Init
  | SemCreateBinary
  | SemGive sem_id
  | SemTake sem_id ticks
  | TaskCreate
  | AttachInterrupt nat
  | Millis "32 word"
  | Delay nat
  | DigitalWriteLed bool
  | Log string "32 word list"
  | TxdStore "8 word" "8 word"
  | CadTimeStore "32 word"
  | ChannelTimeoutStore "32 word"

subsection \<open>The globals\<close>

text \<open>
  A FreeRTOS binary semaphore holds at most one credit: \<open>True\<close> when it is available.
  A handle is \<open>None\<close> while it is \<open>NULL\<close>. \<open>TxdBuffer\<close> is a static array of 256 bytes:
  a value for each of the 256 indices. The two time markers hold readings of
  \<open>millis()\<close>, kept modulo \<open>2^32\<close>.
\<close>

type_synonym semaphore = bool

record state =
  loraEvent :: "semaphore option"
  taskEvent :: "semaphore option"
  eventType :: "8 word"
  TxdBuffer :: "8 word \<Rightarrow> 8 word"
  cadTime :: "32 word"
  channelTimeout :: "32 word"
  channelFreeRetryNum :: "8 word"
  lastRSSI :: "16 word"
  led :: bool
  radio :: RadioState
  trace :: "event list"

datatype fault = NullSemaphoreHandle | LogBufferOverrun

subsection \<open>Collaborators\<close>

definition emit :: "event \<Rightarrow> state \<Rightarrow> state" where
  "emit e s = s\<lparr>trace := trace s @ [e]\<rparr>"

definition Radio :: "radio_call \<Rightarrow> state \<Rightarrow> state" where
  "Radio c s = emit (RadioCall c) (s\<lparr>radio := radio_after c (radio s)\<rparr>)"

definition myLog_d :: "config \<Rightarrow> string \<Rightarrow> 32 word list \<Rightarrow> state \<Rightarrow> state" where
  "myLog_d cfg msg args s = (if log_debug cfg then emit (Log msg args) s else s)"

definition delay :: "nat \<Rightarrow> state \<Rightarrow> state" where
  "delay ms s = emit (Delay ms) s"

definition digitalWrite_LED_CONN :: "bool \<Rightarrow> state \<Rightarrow> state" where
  "digitalWrite_LED_CONN v s = emit (DigitalWriteLed v) (s\<lparr>led := v\<rparr>)"

text \<open>
  The semaphore operations, on the count alone. Giving an available binary semaphore
  fails and leaves it available; taking returns at once when a credit is there, and
  otherwise gives up after the timeout with nothing taken (no credit arrives inside
  one sequential step). Both return \<open>pdTRUE\<close> as \<open>True\<close>.
\<close>

definition sem_give :: "semaphore \<Rightarrow> bool \<times> semaphore" where
  "sem_give c = (if c then (False, True) else (True, True))"

definition sem_take :: "semaphore \<Rightarrow> bool \<times> semaphore" where
  "sem_take c = (if c then (True, False) else (False, False))"

text \<open>
  \<open>xSemaphoreTake(loraEvent, t)\<close> and \<open>xSemaphoreGive(loraEvent)\<close>: a \<open>NULL\<close> handle is
  dereferenced by FreeRTOS, which is a fault here.
\<close>

definition xSemaphoreTake_loraEvent :: "ticks \<Rightarrow> state \<Rightarrow> fault + (bool \<times> state)" where
  "xSemaphoreTake_loraEvent t s =
     (case loraEvent s of
        None \<Rightarrow> Inl NullSemaphoreHandle
      | Some c \<Rightarrow>
          Inr (fst (sem_take c),
               emit (SemTake LoraEvent t) (s\<lparr>loraEvent := Some (snd (sem_take c))\<rparr>)))"

definition xSemaphoreGive_loraEvent :: "state \<Rightarrow> fault + (bool \<times> state)" where
  "xSemaphoreGive_loraEvent s =
     (case loraEvent s of
        None \<Rightarrow> Inl NullSemaphoreHandle
      | Some c \<Rightarrow>
          Inr (fst (sem_give c),
               emit (SemGive LoraEvent) (s\<lparr>loraEvent := Some (snd (sem_give c))\<rparr>)))"

definition xSemaphoreGive_taskEvent :: "state \<Rightarrow> fault + (bool \<times> state)" where
  "xSemaphoreGive_taskEvent s =
     (case taskEvent s of
        None \<Rightarrow> Inl NullSemaphoreHandle
      | Some c \<Rightarrow>
          Inr (fst (sem_give c),
               emit (SemGive TaskEvent) (s\<lparr>taskEvent := Some (snd (sem_give c))\<rparr>)))"

text \<open>The statement \<open>xSemaphoreTake(loraEvent, 10);\<close> with its result dropped.\<close>

definition back_to_sleep :: "state \<Rightarrow> fault + state" where
  "back_to_sleep s = map_sum id snd (xSemaphoreTake_loraEvent (Ticks 10) s)"

subsection \<open>loraIntHandler\<close>

definition loraIntHandler :: "state \<Rightarrow> state" where
  "loraIntHandler s =
     (if loraEvent s \<noteq> None
      then (case xSemaphoreGive_loraEvent s of Inr (_, s') \<Rightarrow> s' | Inl _ \<Rightarrow> s)
      else s)"

subsection \<open>sendLoRa\<close>

text \<open>
  The fourteen assignments to \<open>TxdBuffer\<close>, as index and value, in the order of the
  source; \<open>-80\<close> is converted to \<open>uint8_t\<close>. Each is a store into the array.
\<close>

definition frame_assignments :: "(8 word \<times> 8 word) list" where
  "frame_assignments =
     [(0, 7), (1, 0), (2, 0), (3, 27), (4, 35), (5, 67), (6, 55), (7, 34), (8, 12), (9, 75),
      (10, 0), (11, word_of_int (- 80)), (12, 0), (13, 0)]"

definition store_TxdBuffer :: "8 word \<times> 8 word \<Rightarrow> state \<Rightarrow> state" where
  "store_TxdBuffer iv s =
     emit (TxdStore (fst iv) (snd iv)) (s\<lparr>TxdBuffer := (TxdBuffer s)(fst iv := snd iv)\<rparr>)"

text \<open>The content of the array once the fourteen stores are made.\<close>

definition fill_TxdBuffer :: "(8 word \<Rightarrow> 8 word) \<Rightarrow> (8 word \<Rightarrow> 8 word)" where
  "fill_TxdBuffer b =
     b(0 := 7, 1 := 0, 2 := 0, 3 := 27, 4 := 35, 5 := 67, 6 := 55, 7 := 34, 8 := 12,
       9 := 75, 10 := 0, 11 := word_of_int (- 80), 12 := 0, 13 := 0)"

text \<open>
  \<open>t1\<close> and \<open>t2\<close> are the two readings of \<open>millis()\<close>.
\<close>

definition sendLoRa :: "config \<Rightarrow> 32 word \<Rightarrow> 32 word \<Rightarrow> state \<Rightarrow> fault + state" where
  "sendLoRa cfg t1 t2 s =
     (let s1 = fold store_TxdBuffer frame_assignments s;
          s2 = Radio Sleep s1;
          s3 = Radio (SetCadParams LORA_CAD_08_SYMBOL (of_nat (LORA_SPREADING_FACTOR + 13)) 10
                        LORA_CAD_ONLY 0) s2;
          s4 = emit (CadTimeStore t1) ((emit (Millis t1) s3)\<lparr>cadTime := t1\<rparr>);
          s5 = emit (ChannelTimeoutStore t2) ((emit (Millis t2) s4)\<lparr>channelTimeout := t2\<rparr>);
          s6 = (if log_enabled cfg then digitalWrite_LED_CONN True s5 else s5);
          s7 = Radio StartCad s6
      in back_to_sleep s7)"

subsection \<open>The callbacks\<close>

text \<open>
  The tail shared by the callbacks that end a cycle: radio to sleep, indicator off
  when it is compiled in, and the semaphore taken with a timeout of ten ticks.
\<close>

definition sleep_and_rearm :: "config \<Rightarrow> state \<Rightarrow> fault + state" where
  "sleep_and_rearm cfg s =
     (let s1 = Radio Sleep s;
          s2 = (if log_enabled cfg then digitalWrite_LED_CONN False s1 else s1)
      in back_to_sleep s2)"

definition OnTxDone :: "config \<Rightarrow> state \<Rightarrow> fault + state" where
  "OnTxDone cfg s = sleep_and_rearm cfg (myLog_d cfg ''OnTxDone'' [] s)"

text \<open>
  \<open>OnRxDone\<close>: when logging is compiled in, \<open>size\<close> bytes of the payload are printed as
  two hexadecimal digits and a blank each into the local \<open>rcvdData[1024]\<close>; every
  \<open>sprintf\<close> also writes the terminating zero, so the last one stays inside the array
  only for \<open>3 * size + 1 \<le> 1024\<close>, and the loop reads \<open>size\<close> bytes at \<open>payload\<close>.
\<close>

definition hex_digit :: "nat \<Rightarrow> char" where
  "hex_digit n = ''0123456789ABCDEF'' ! (n mod 16)"

definition hex_byte :: "8 word \<Rightarrow> string" where
  "hex_byte b = [hex_digit (unat b div 16), hex_digit (unat b mod 16), CHR '' '']"

definition rcvdData_fits :: "8 word list \<Rightarrow> 16 word \<Rightarrow> bool" where
  "rcvdData_fits payload sz = (3 * unat sz + 1 \<le> 256 * 4 \<and> unat sz \<le> length payload)"

definition OnRxDone ::
  "config \<Rightarrow> 8 word list \<Rightarrow> 16 word \<Rightarrow> 16 word \<Rightarrow> 8 word \<Rightarrow> state \<Rightarrow> fault + state" where
  "OnRxDone cfg payload sz rssi snr s =
     (let s1 = myLog_d cfg ''OnRxDone'' [] s;
          s2 = delay 10 s1;
          s3 = s2\<lparr>eventType := 0\<rparr>;
          s4 = (if taskEvent s3 \<noteq> None
                then (case xSemaphoreGive_taskEvent s3 of Inr (_, s') \<Rightarrow> s' | Inl _ \<Rightarrow> s3)
                else s3)
      in if log_enabled cfg
         then (if rcvdData_fits payload sz
               then sleep_and_rearm cfg
                      (myLog_d cfg (concat (map hex_byte (take (unat sz) payload))) [] s4)
               else Inl LogBufferOverrun)
         else sleep_and_rearm cfg s4)"

definition OnTxTimeout :: "config \<Rightarrow> state \<Rightarrow> fault + state" where
  "OnTxTimeout cfg s = sleep_and_rearm cfg (myLog_d cfg ''OnTxTimeout'' [] s)"

definition OnRxTimeout :: "config \<Rightarrow> state \<Rightarrow> fault + state" where
  "OnRxTimeout cfg s = sleep_and_rearm cfg (myLog_d cfg ''OnRxTimeout'' [] s)"

definition OnRxError :: "config \<Rightarrow> state \<Rightarrow> fault + state" where
  "OnRxError cfg s = sleep_and_rearm cfg s"

text \<open>
  \<open>OnCadDone\<close>: \<open>now\<close> is the reading of \<open>millis()\<close> in the argument of the log call,
  evaluated only when the macro expands to a call.
\<close>

definition OnCadDone :: "config \<Rightarrow> 32 word \<Rightarrow> bool \<Rightarrow> state \<Rightarrow> fault + state" where
  "OnCadDone cfg now cadResult s =
     (if cadResult then sleep_and_rearm cfg s
      else
        (let s1 = (if log_debug cfg
                   then myLog_d cfg (''CAD returned channel free after %ldms'' @ [CHR 0x0A])
                          [now - cadTime s]
                          (emit (Millis now) s)
                   else s)
         in Inr (Radio (Send (map (TxdBuffer s1 \<circ> of_nat) [0..<14]) 14) s1)))"

subsection \<open>initLoRa\<close>

text \<open>
  What FreeRTOS returns (projdefs.h, not part of the source): \<open>BaseType_t\<close> is a signed
  32-bit integer, \<open>xTaskCreate\<close> returns \<open>pdPASS\<close> when the task was created and
  \<open>errCOULD_NOT_ALLOCATE_REQUIRED_MEMORY\<close> when it was not.
\<close>

definition pdPASS :: "32 word" where "pdPASS = 1"
definition pdFAIL :: "32 word" where "pdFAIL = 0"
definition errCOULD_NOT_ALLOCATE_REQUIRED_MEMORY :: "32 word" where
  "errCOULD_NOT_ALLOCATE_REQUIRED_MEMORY = word_of_int (- 1)"

text \<open>
  \<open>initLoRa\<close>: \<open>sem\<close> is what \<open>xSemaphoreCreateBinary\<close> returns (\<open>None\<close> for \<open>NULL\<close>, else a
  fresh semaphore with no credit), \<open>init_rc\<close> what \<open>lora_rak4630_init\<close> returns and
  \<open>task_rc\<close> what \<open>xTaskCreate\<close> returns. The result is the returned \<open>bool\<close> and the
  state left behind.
\<close>

definition initLoRa ::
  "config \<Rightarrow> semaphore option \<Rightarrow> 32 word \<Rightarrow> 32 word \<Rightarrow> state \<Rightarrow> fault + (bool \<times> state)" where
  "initLoRa cfg sem init_rc task_rc s =
     (let s1 = delay 100 (myLog_d cfg ''Create LoRa semaphore'' [] s);
          s2 = (emit SemCreateBinary s1)\<lparr>loraEvent := sem\<rparr>;
          s3 = delay 100 (myLog_d cfg ''Initialize LoRa Semaphore'' [] s2)
      in case xSemaphoreGive_loraEvent s3 of
           Inl f \<Rightarrow> Inl f
         | Inr (_, s4) \<Rightarrow>
            (let s5 = delay 100 (myLog_d cfg ''Take LoRa Semaphore'' [] s4)
             in case xSemaphoreTake_loraEvent (Ticks 10) s5 of
                  Inl f \<Rightarrow> Inl f
                | Inr (_, s6) \<Rightarrow>
                   (let s7 = emit LoraRak4630Init s6
                    in if init_rc = 1 then Inr (False, s7)
                       else
                        (let s8 = Radio Init s7;
                             s9 = Radio Sleep s8;
                             s10 = Radio (SetChannel RF_FREQUENCY) s9;
                             s11 = Radio (SetTxConfig TX_OUTPUT_POWER LORA_BANDWIDTH
                                     LORA_SPREADING_FACTOR LORA_CODINGRATE LORA_PREAMBLE_LENGTH
                                     LORA_FIX_LENGTH_PAYLOAD_ON True LORA_IQ_INVERSION_ON
                                     TX_TIMEOUT_VALUE) s10;
                             s12 = Radio (SetRxConfig LORA_BANDWIDTH LORA_SPREADING_FACTOR
                                     LORA_CODINGRATE LORA_PREAMBLE_LENGTH LORA_SYMBOL_TIMEOUT
                                     LORA_FIX_LENGTH_PAYLOAD_ON True LORA_IQ_INVERSION_ON
                                     True) s11;
                             s13 = emit (AttachInterrupt PIN_LORA_DIO_1) s12;
                             s14 = myLog_d cfg ''Starting LoRaWan task'' [] s13;
                             s15 = emit TaskCreate s14
                         in if task_rc = 0 then Inr (False, s15)
                            else Inr (True, Radio Sleep s15)))))"

subsection \<open>loraTask and the driver's dispatch\<close>

text \<open>
  What the driver finds pending when it is polled. \<open>initLoRa\<close> fills the callback table
  with one handler per interrupt (\<open>RadioEvents.TxDone = OnTxDone\<close> and so on), and this
  is the table \<open>dispatch\<close> follows.
\<close>

datatype irq =
    TxDone
  | RxDone "8 word list" "16 word" "16 word" "8 word"
  | TxTimeout
  | RxTimeout
  | RxError
  | CadDone bool

fun dispatch :: "config \<Rightarrow> 32 word \<Rightarrow> irq \<Rightarrow> state \<Rightarrow> fault + state" where
  "dispatch cfg now TxDone s = OnTxDone cfg s"
| "dispatch cfg now (RxDone payload sz rssi snr) s = OnRxDone cfg payload sz rssi snr s"
| "dispatch cfg now TxTimeout s = OnTxTimeout cfg s"
| "dispatch cfg now RxTimeout s = OnRxTimeout cfg s"
| "dispatch cfg now RxError s = OnRxError cfg s"
| "dispatch cfg now (CadDone cadResult) s = OnCadDone cfg now cadResult s"

text \<open>
  Modelled from the spec: \<open>Radio.IrqProcessAfterDeepSleep\<close> is the driver's "process
  pending interrupt" entry point, which invokes at most one callback per call and is a
  no-op when nothing is pending. \<open>pending\<close> is what the driver finds.
\<close>

definition Radio_IrqProcessAfterDeepSleep ::
  "config \<Rightarrow> 32 word \<Rightarrow> irq option \<Rightarrow> state \<Rightarrow> fault + state" where
  "Radio_IrqProcessAfterDeepSleep cfg now pending s =
     (let s1 = Radio IrqProcessAfterDeepSleep s
      in case pending of None \<Rightarrow> Inr s1 | Some i \<Rightarrow> dispatch cfg now i s1)"

text \<open>
  One turn of the \<open>while (1)\<close> loop of \<open>loraTask\<close>. The take waits without a timeout:
  with no credit the task stays blocked and nothing happens; with a credit the loop
  wakes, switches the indicator on when it is compiled in, and polls the driver.
\<close>

definition loraTask_turn :: "config \<Rightarrow> 32 word \<Rightarrow> irq option \<Rightarrow> state \<Rightarrow> fault + state" where
  "loraTask_turn cfg now pending s =
     (case loraEvent s of
        None \<Rightarrow> Inl NullSemaphoreHandle
      | Some False \<Rightarrow> Inr s
      | Some True \<Rightarrow>
          (case xSemaphoreTake_loraEvent portMAX_DELAY s of
             Inl f \<Rightarrow> Inl f
           | Inr (_, s1) \<Rightarrow>
               Radio_IrqProcessAfterDeepSleep cfg now pending
                 (if log_enabled cfg then digitalWrite_LED_CONN True s1 else s1)))"

subsection \<open>Executions\<close>

text \<open>
  The things that happen to the module: the interrupt line rises, the loop task gets
  a turn, a cycle is triggered, the startup sequence initialises the module. An
  execution is a finite sequence of them; it stops at the first fault.
\<close>

datatype action =
    Edge
  | Turn "32 word" "irq option"
  | Cycle "32 word" "32 word"
  | Startup "semaphore option" "32 word" "32 word"

fun step :: "config \<Rightarrow> action \<Rightarrow> state \<Rightarrow> fault + state" where
  "step cfg Edge s = Inr (loraIntHandler s)"
| "step cfg (Turn now pending) s = loraTask_turn cfg now pending s"
| "step cfg (Cycle t1 t2) s = sendLoRa cfg t1 t2 s"
| "step cfg (Startup sem init_rc task_rc) s = map_sum id snd (initLoRa cfg sem init_rc task_rc s)"

fun exec :: "config \<Rightarrow> action list \<Rightarrow> state \<Rightarrow> fault + state" where
  "exec cfg [] s = Inr s"
| "exec cfg (a # as) s = (case step cfg a s of Inl f \<Rightarrow> Inl f | Inr s' \<Rightarrow> exec cfg as s')"

text \<open>The state at power-up: the globals as their initialisers leave them.\<close>

definition power_up :: state where
  "power_up = \<lparr>loraEvent = None, taskEvent = None, eventType = 0, TxdBuffer = (\<lambda>_. 0),
     cadTime = 0, channelTimeout = 0, channelFreeRetryNum = 0, lastRSSI = 0, led = False,
     radio = Idle, trace = []\<rparr>"

definition default_config :: config where
  "default_config = \<lparr>log_enabled = False, log_debug = False\<rparr>"

subsection \<open>Observations on a state\<close>

fun calls_in :: "event list \<Rightarrow> radio_call list" where
  "calls_in [] = []"
| "calls_in (RadioCall c # es) = c # calls_in es"
| "calls_in (e # es) = calls_in es"

definition radio_calls :: "state \<Rightarrow> radio_call list" where
  "radio_calls s = calls_in (trace s)"

fun is_Send :: "radio_call \<Rightarrow> bool" where
  "is_Send (Send buf n) = True"
| "is_Send c = False"

definition sends :: "state \<Rightarrow> radio_call list" where
  "sends s = filter is_Send (radio_calls s)"

definition wakes :: "state \<Rightarrow> nat" where
  "wakes s = count_list (trace s) (RadioCall IrqProcessAfterDeepSleep)"

definition frame :: "state \<Rightarrow> 8 word list" where
  "frame s = map (TxdBuffer s \<circ> of_nat) [0..<14]"

definition led_events :: "config \<Rightarrow> bool \<Rightarrow> event list" where
  "led_events cfg v = (if log_enabled cfg then [DigitalWriteLed v] else [])"

text \<open>What one run of \<open>sendLoRa\<close> adds to the trace.\<close>

definition frame_stores :: "event list" where
  "frame_stores =
     [TxdStore 0 7, TxdStore 1 0, TxdStore 2 0, TxdStore 3 27, TxdStore 4 35, TxdStore 5 67,
      TxdStore 6 55, TxdStore 7 34, TxdStore 8 12, TxdStore 9 75, TxdStore 10 0,
      TxdStore 11 176, TxdStore 12 0, TxdStore 13 0]"

definition sendLoRa_events :: "config \<Rightarrow> 32 word \<Rightarrow> 32 word \<Rightarrow> event list" where
  "sendLoRa_events cfg t1 t2 =
     frame_stores @
     [RadioCall Sleep,
      RadioCall (SetCadParams LORA_CAD_08_SYMBOL (of_nat (LORA_SPREADING_FACTOR + 13)) 10
                   LORA_CAD_ONLY 0),
      Millis t1, CadTimeStore t1, Millis t2, ChannelTimeoutStore t2] @
     led_events cfg True @
     [RadioCall StartCad, SemTake LoraEvent (Ticks 10)]"

text \<open>States and a configuration to run the module on.\<close>

definition logging_config :: config where
  "logging_config = \<lparr>log_enabled = True, log_debug = True\<rparr>"

definition idle_state :: state where
  "idle_state = power_up\<lparr>loraEvent := Some False, radio := Sleeping\<rparr>"

definition cad_running :: state where
  "cad_running = power_up\<lparr>loraEvent := Some True, TxdBuffer := fill_TxdBuffer (\<lambda>_. 0),
     led := True, radio := Cad\<rparr>"

text \<open>
  Whether the log formatting of \<open>OnRxDone\<close> stays inside its buffer for an interrupt;
  the other callbacks have no such condition.
\<close>

fun irq_fits :: "config \<Rightarrow> irq \<Rightarrow> bool" where
  "irq_fits cfg (RxDone payload sz rssi snr) = (\<not> log_enabled cfg \<or> rcvdData_fits payload sz)"
| "irq_fits cfg i = True"


subsection \<open>Counting wake-ups, and the two unused globals\<close>









definition set_hidden :: "32 word \<Rightarrow> 8 word \<Rightarrow> state \<Rightarrow> state" where
  "set_hidden x y s = s\<lparr>channelTimeout := x, channelFreeRetryNum := y\<rparr>"

definition forget :: "state \<Rightarrow> state" where
  "forget s = s\<lparr>channelTimeout := 0, channelFreeRetryNum := 0\<rparr>"

definition busy_day :: "action list" where
  "busy_day = [Cycle 5 6, Edge, Edge, Turn 9 (Some (CadDone False)), Edge, Turn 20 (Some TxDone),
     Turn 21 None]"

definition idle_state_marked :: state where
  "idle_state_marked = idle_state\<lparr>channelTimeout := 77, channelFreeRetryNum := 3\<rparr>"

section \<open>Effects of the operations\<close>

lemma calls_in_append: "calls_in (xs @ ys) = calls_in xs @ calls_in ys"
proof (induction xs)
  case Nil
  show ?case by simp
next
  case (Cons e es)
  then show ?case by (cases e) simp_all
qed

lemma back_to_sleep_Some:
  "loraEvent s = Some c \<Longrightarrow>
   back_to_sleep s =
     Inr (s\<lparr>loraEvent := Some False, trace := trace s @ [SemTake LoraEvent (Ticks 10)]\<rparr>)"
  by (simp add: back_to_sleep_def xSemaphoreTake_loraEvent_def sem_take_def emit_def)

lemma back_to_sleep_None: "loraEvent s = None \<Longrightarrow> back_to_sleep s = Inl NullSemaphoreHandle"
  by (simp add: back_to_sleep_def xSemaphoreTake_loraEvent_def)

lemma fold_store_TxdBuffer:
  "fold store_TxdBuffer frame_assignments s =
     s\<lparr>TxdBuffer := fill_TxdBuffer (TxdBuffer s), trace := trace s @ frame_stores\<rparr>"
  by (simp add: frame_assignments_def store_TxdBuffer_def emit_def fill_TxdBuffer_def
      frame_stores_def)

lemma sendLoRa_Some:
  "loraEvent s = Some c \<Longrightarrow>
   sendLoRa cfg t1 t2 s =
     Inr (s\<lparr>loraEvent := Some False, TxdBuffer := fill_TxdBuffer (TxdBuffer s), cadTime := t1,
            channelTimeout := t2, led := (if log_enabled cfg then True else led s), radio := Cad,
            trace := trace s @ sendLoRa_events cfg t1 t2\<rparr>)"
  by (simp add: sendLoRa_def Let_def fold_store_TxdBuffer back_to_sleep_Some Radio_def emit_def
      digitalWrite_LED_CONN_def led_events_def sendLoRa_events_def)

lemma calls_in_sendLoRa_events:
  "calls_in (sendLoRa_events cfg t1 t2) =
     [Sleep, SetCadParams LORA_CAD_08_SYMBOL 20 10 LORA_CAD_ONLY 0, StartCad]"
  by (simp add: sendLoRa_events_def frame_stores_def led_events_def LORA_SPREADING_FACTOR_def)


lemma sendLoRa_None: "loraEvent s = None \<Longrightarrow> sendLoRa cfg t1 t2 s = Inl NullSemaphoreHandle"
  by (simp add: sendLoRa_def Let_def fold_store_TxdBuffer back_to_sleep_None Radio_def emit_def
      digitalWrite_LED_CONN_def)

lemma sleep_and_rearm_Some:
  "loraEvent s = Some c \<Longrightarrow>
   sleep_and_rearm cfg s =
     Inr (s\<lparr>loraEvent := Some False, led := (if log_enabled cfg then False else led s),
            radio := Sleeping,
            trace := trace s @ [RadioCall Sleep] @ led_events cfg False @
              [SemTake LoraEvent (Ticks 10)]\<rparr>)"
  by (simp add: sleep_and_rearm_def Let_def back_to_sleep_Some Radio_def emit_def
      digitalWrite_LED_CONN_def led_events_def)


lemma OnCadDone_free:
  "OnCadDone cfg now False s =
     Inr (s\<lparr>radio := Sending,
            trace := trace s @
              (if log_debug cfg
               then [Millis now,
                     Log (''CAD returned channel free after %ldms'' @ [CHR 0x0A]) [now - cadTime s]]
               else []) @
              [RadioCall (Send (frame s) 14)]\<rparr>)"
  by (simp add: OnCadDone_def Let_def myLog_d_def Radio_def emit_def frame_def)

lemma OnCadDone_busy: "OnCadDone cfg now True s = sleep_and_rearm cfg s"
  by (simp add: OnCadDone_def)

lemma frame_fill:
  "map (fill_TxdBuffer b \<circ> of_nat) [0..<14] = [7, 0, 0, 27, 35, 67, 55, 34, 12, 75, 0, 176, 0, 0]"
  by (simp add: fill_TxdBuffer_def upt_rec)

lemma calls_in_led_events: "calls_in (led_events cfg v) = []"
  by (simp add: led_events_def)

lemma loraIntHandler_effect:
  "loraIntHandler s =
     (case loraEvent s of
        None \<Rightarrow> s
      | Some c \<Rightarrow> s\<lparr>loraEvent := Some True, trace := trace s @ [SemGive LoraEvent]\<rparr>)"
  by (simp add: loraIntHandler_def xSemaphoreGive_loraEvent_def sem_give_def emit_def
      split: option.splits)

lemma task_notify_fields:
  "loraEvent (if taskEvent s \<noteq> None
     then (case xSemaphoreGive_taskEvent s of Inr (_, s') \<Rightarrow> s' | Inl _ \<Rightarrow> s) else s) = loraEvent s"
  "led (if taskEvent s \<noteq> None
     then (case xSemaphoreGive_taskEvent s of Inr (_, s') \<Rightarrow> s' | Inl _ \<Rightarrow> s) else s) = led s"
  by (simp_all add: xSemaphoreGive_taskEvent_def emit_def split: option.splits)

lemma sleep_and_rearm_post:
  assumes "loraEvent s = Some c" and "led s = l"
  shows "\<exists>s'. sleep_and_rearm cfg s = Inr s' \<and> radio s' = Sleeping \<and>
           led s' = (if log_enabled cfg then False else l) \<and> loraEvent s' = Some False"
  unfolding sleep_and_rearm_Some [OF assms(1)] using assms(2) by simp

lemma myLog_d_fields:
  "loraEvent (myLog_d cfg msg args s) = loraEvent s"
  "led (myLog_d cfg msg args s) = led s"
  "taskEvent (myLog_d cfg msg args s) = taskEvent s"
  by (simp_all add: myLog_d_def emit_def)

lemma OnRxDone_post:
  assumes "loraEvent s = Some c" and "\<not> log_enabled cfg \<or> rcvdData_fits payload sz"
  shows "\<exists>s'. OnRxDone cfg payload sz rssi snr s = Inr s' \<and> radio s' = Sleeping \<and>
           led s' = (if log_enabled cfg then False else led s) \<and> loraEvent s' = Some False"
proof -
  let ?s3 = "(delay 10 (myLog_d cfg ''OnRxDone'' [] s))\<lparr>eventType := 0\<rparr>"
  let ?s4 = "(if taskEvent ?s3 \<noteq> None
                then (case xSemaphoreGive_taskEvent ?s3 of Inr (_, s') \<Rightarrow> s' | Inl _ \<Rightarrow> ?s3)
                else ?s3)"
  have ev3: "loraEvent ?s3 = Some c" "led ?s3 = led s"
    using assms(1) by (simp_all add: delay_def emit_def myLog_d_fields)
  have ev4: "loraEvent ?s4 = Some c" "led ?s4 = led s"
    using ev3 task_notify_fields [of ?s3] by simp_all
  show ?thesis
  proof (cases "log_enabled cfg")
    case True
    let ?s5 = "myLog_d cfg (concat (map hex_byte (take (unat sz) payload))) [] ?s4"
    have ev5: "loraEvent ?s5 = Some c" "led ?s5 = led s"
      using ev4 by (simp_all add: myLog_d_fields)
    have "OnRxDone cfg payload sz rssi snr s = sleep_and_rearm cfg ?s5"
      using True assms(2) by (simp add: OnRxDone_def Let_def)
    then show ?thesis
      using sleep_and_rearm_post [OF ev5, of cfg] by simp
  next
    case False
    have "OnRxDone cfg payload sz rssi snr s = sleep_and_rearm cfg ?s4"
      using False by (simp add: OnRxDone_def Let_def)
    then show ?thesis
      using sleep_and_rearm_post [OF ev4, of cfg] by simp
  qed
qed

lemma logged_then_sleep:
  assumes "loraEvent s = Some c"
  shows "\<exists>s'. sleep_and_rearm cfg (myLog_d cfg msg args s) = Inr s' \<and> radio s' = Sleeping \<and>
           led s' = (if log_enabled cfg then False else led s) \<and> loraEvent s' = Some False"
proof -
  have "loraEvent (myLog_d cfg msg args s) = Some c" "led (myLog_d cfg msg args s) = led s"
    using assms by (simp_all add: myLog_d_fields)
  then show ?thesis by (rule sleep_and_rearm_post)
qed

lemma dispatch_post:
  assumes "loraEvent s = Some c" and "i \<noteq> CadDone False" and "irq_fits cfg i"
  shows "\<exists>s'. dispatch cfg now i s = Inr s' \<and> radio s' = Sleeping \<and>
           led s' = (if log_enabled cfg then False else led s) \<and> loraEvent s' = Some False"
proof (cases i)
  case TxDone
  show ?thesis
    unfolding TxDone dispatch.simps OnTxDone_def using assms(1) by (rule logged_then_sleep)
next
  case (RxDone payload sz rssi snr)
  with assms(3) have "\<not> log_enabled cfg \<or> rcvdData_fits payload sz" by simp
  from OnRxDone_post [OF assms(1) this] show ?thesis
    unfolding RxDone dispatch.simps .
next
  case TxTimeout
  show ?thesis
    unfolding TxTimeout dispatch.simps OnTxTimeout_def using assms(1) by (rule logged_then_sleep)
next
  case RxTimeout
  show ?thesis
    unfolding RxTimeout dispatch.simps OnRxTimeout_def using assms(1) by (rule logged_then_sleep)
next
  case RxError
  show ?thesis
    unfolding RxError dispatch.simps OnRxError_def
    using assms(1) refl by (rule sleep_and_rearm_post)
next
  case (CadDone b)
  with assms(2) have b: "b = True" by simp
  show ?thesis
    unfolding CadDone b dispatch.simps OnCadDone_busy
    using assms(1) refl by (rule sleep_and_rearm_post)
qed

lemma set_hidden_prims:
  "emit e (set_hidden x y s) = set_hidden x y (emit e s)"
  "Radio c (set_hidden x y s) = set_hidden x y (Radio c s)"
  "myLog_d cfg msg args (set_hidden x y s) = set_hidden x y (myLog_d cfg msg args s)"
  "delay n (set_hidden x y s) = set_hidden x y (delay n s)"
  "digitalWrite_LED_CONN v (set_hidden x y s) = set_hidden x y (digitalWrite_LED_CONN v s)"
  by (simp_all add: set_hidden_def emit_def Radio_def myLog_d_def delay_def
      digitalWrite_LED_CONN_def)

lemma set_hidden_sems:
  "xSemaphoreTake_loraEvent t (set_hidden x y s) =
     map_sum id (map_prod id (set_hidden x y)) (xSemaphoreTake_loraEvent t s)"
  "xSemaphoreGive_loraEvent (set_hidden x y s) =
     map_sum id (map_prod id (set_hidden x y)) (xSemaphoreGive_loraEvent s)"
  "xSemaphoreGive_taskEvent (set_hidden x y s) =
     map_sum id (map_prod id (set_hidden x y)) (xSemaphoreGive_taskEvent s)"
  by (simp_all add: set_hidden_def xSemaphoreTake_loraEvent_def xSemaphoreGive_loraEvent_def
      xSemaphoreGive_taskEvent_def emit_def split: option.splits)

lemma prim_loraEvent:
  "loraEvent (emit e s) = loraEvent s"
  "loraEvent (Radio c s) = loraEvent s"
  "loraEvent (myLog_d cfg msg args s) = loraEvent s"
  "loraEvent (delay n s) = loraEvent s"
  by (simp_all add: emit_def Radio_def myLog_d_def delay_def)

lemma prim_wakes:
  "e \<noteq> RadioCall IrqProcessAfterDeepSleep \<Longrightarrow> wakes (emit e s) = wakes s"
  "c \<noteq> IrqProcessAfterDeepSleep \<Longrightarrow> wakes (Radio c s) = wakes s"
  "wakes (myLog_d cfg msg args s) = wakes s"
  "wakes (delay n s) = wakes s"
  "wakes (s\<lparr>loraEvent := h\<rparr>) = wakes s"
  by (simp_all add: emit_def Radio_def myLog_d_def delay_def wakes_def)

lemma give_created:
  "loraEvent s \<noteq> None \<Longrightarrow>
   xSemaphoreGive_loraEvent s =
     Inr (loraEvent s = Some False, emit (SemGive LoraEvent) (s\<lparr>loraEvent := Some True\<rparr>))"
  by (auto simp add: xSemaphoreGive_loraEvent_def sem_give_def)

lemma take_created:
  "loraEvent s \<noteq> None \<Longrightarrow>
   xSemaphoreTake_loraEvent t s =
     Inr (loraEvent s = Some True, emit (SemTake LoraEvent t) (s\<lparr>loraEvent := Some False\<rparr>))"
  by (auto simp add: xSemaphoreTake_loraEvent_def sem_take_def)

lemma initLoRa_None: "initLoRa cfg None init_rc task_rc s = Inl NullSemaphoreHandle"
  by (simp add: initLoRa_def Let_def xSemaphoreGive_loraEvent_def prim_loraEvent)

lemma initLoRa_Some:
  "\<exists>s'. initLoRa cfg (Some c) init_rc task_rc s = Inr (init_rc \<noteq> 1 \<and> task_rc \<noteq> 0, s') \<and>
         loraEvent s' = Some False \<and> wakes s' = wakes s"
  by (simp add: initLoRa_def Let_def give_created take_created prim_loraEvent prim_wakes)

lemma set_hidden_loraEvent:
  "(set_hidden x y s)\<lparr>loraEvent := h\<rparr> = set_hidden x y (s\<lparr>loraEvent := h\<rparr>)"
  by (simp add: set_hidden_def)

lemma initLoRa_hidden:
  "initLoRa cfg sem init_rc task_rc (set_hidden x y s) =
     map_sum id (map_prod id (set_hidden x y)) (initLoRa cfg sem init_rc task_rc s)"
proof (cases sem)
  case None
  then show ?thesis by (simp add: initLoRa_None)
next
  case (Some c)
  then show ?thesis
    by (simp add: initLoRa_def Let_def give_created take_created prim_loraEvent
        set_hidden_prims set_hidden_loraEvent)
qed







lemma loraTask_turn_blocked: "loraEvent s = Some False \<Longrightarrow> loraTask_turn cfg now pending s = Inr s"
  by (simp add: loraTask_turn_def)

lemma loraTask_turn_woken:
  assumes "loraEvent s = Some True"
  shows "loraTask_turn cfg now pending s =
     (let s1 = s\<lparr>loraEvent := Some False, led := (if log_enabled cfg then True else led s),
                  trace := trace s @ [SemTake LoraEvent portMAX_DELAY] @ led_events cfg True @
                    [RadioCall IrqProcessAfterDeepSleep]\<rparr>
      in case pending of None \<Rightarrow> Inr s1 | Some i \<Rightarrow> dispatch cfg now i s1)"
  using assms
  by (cases pending)
    (simp_all add: loraTask_turn_def xSemaphoreTake_loraEvent_def sem_take_def
      Radio_IrqProcessAfterDeepSleep_def Radio_def emit_def digitalWrite_LED_CONN_def
      led_events_def Let_def)





lemma exec_append:
  "exec cfg (as @ bs) s = (case exec cfg as s of Inl f \<Rightarrow> Inl f | Inr s' \<Rightarrow> exec cfg bs s')"
  by (induction as arbitrary: s) (auto split: sum.splits)

lemma edges_burst:
  "loraEvent s = Some c \<Longrightarrow>
   \<exists>s'. exec cfg (replicate (Suc n) Edge) s = Inr s' \<and> loraEvent s' = Some True \<and>
        wakes s' = wakes s"
proof (induction n arbitrary: s c)
  case 0
  then show ?case by (simp add: loraIntHandler_effect wakes_def)
next
  case (Suc n)
  have "loraEvent (loraIntHandler s) = Some True" "wakes (loraIntHandler s) = wakes s"
    using Suc.prems by (simp_all add: loraIntHandler_effect wakes_def)
  with Suc.IH [of "loraIntHandler s" True] show ?case by simp
qed



lemma forget_set_hidden: "forget (set_hidden x y s) = forget s"
  by (simp add: forget_def set_hidden_def)

lemma forget_eqD: "forget s = forget s' \<Longrightarrow> s' = set_hidden (channelTimeout s') (channelFreeRetryNum s') s"
proof -
  assume eq: "forget s = forget s'"
  have "s' = set_hidden (channelTimeout s') (channelFreeRetryNum s') (forget s')"
    by (simp add: forget_def set_hidden_def)
  also have "\<dots> = set_hidden (channelTimeout s') (channelFreeRetryNum s') (forget s)"
    by (simp add: eq)
  also have "\<dots> = set_hidden (channelTimeout s') (channelFreeRetryNum s') s"
    by (simp add: forget_def set_hidden_def)
  finally show ?thesis .
qed

lemma set_hidden_fields:
  "loraEvent (set_hidden x y s) = loraEvent s"
  "taskEvent (set_hidden x y s) = taskEvent s"
  "cadTime (set_hidden x y s) = cadTime s"
  "led (set_hidden x y s) = led s"
  "trace (set_hidden x y s) = trace s"
  "TxdBuffer (set_hidden x y s) = TxdBuffer s"
  "radio (set_hidden x y s) = radio s"
  by (simp_all add: set_hidden_def)

lemma back_to_sleep_hidden:
  "back_to_sleep (set_hidden x y s) = map_sum id (set_hidden x y) (back_to_sleep s)"
  by (cases "xSemaphoreTake_loraEvent (Ticks 10) s")
    (auto simp add: back_to_sleep_def set_hidden_sems)

lemma sleep_and_rearm_hidden:
  "sleep_and_rearm cfg (set_hidden x y s) = map_sum id (set_hidden x y) (sleep_and_rearm cfg s)"
  by (simp add: sleep_and_rearm_def Let_def set_hidden_prims back_to_sleep_hidden)

lemma loraIntHandler_hidden:
  "loraIntHandler (set_hidden x y s) = set_hidden x y (loraIntHandler s)"
  by (simp add: loraIntHandler_effect set_hidden_def split: option.splits)

lemma task_notify_hidden:
  "(if taskEvent (set_hidden x y s) \<noteq> None
    then (case xSemaphoreGive_taskEvent (set_hidden x y s) of Inr (_, s') \<Rightarrow> s'
          | Inl _ \<Rightarrow> set_hidden x y s)
    else set_hidden x y s) =
   set_hidden x y
     (if taskEvent s \<noteq> None
      then (case xSemaphoreGive_taskEvent s of Inr (_, s') \<Rightarrow> s' | Inl _ \<Rightarrow> s) else s)"
  by (cases "xSemaphoreGive_taskEvent s")
    (auto simp add: set_hidden_sems set_hidden_fields)

lemma OnRxDone_hidden:
  "OnRxDone cfg payload sz rssi snr (set_hidden x y s) =
     map_sum id (set_hidden x y) (OnRxDone cfg payload sz rssi snr s)"
proof -
  have ev: "(set_hidden x y (delay 10 (myLog_d cfg ''OnRxDone'' [] s)))\<lparr>eventType := 0\<rparr> =
        set_hidden x y ((delay 10 (myLog_d cfg ''OnRxDone'' [] s))\<lparr>eventType := 0\<rparr>)"
    by (simp add: set_hidden_def)
  show ?thesis
    unfolding OnRxDone_def Let_def set_hidden_prims ev task_notify_hidden
    by (simp add: sleep_and_rearm_hidden)
qed

lemma OnCadDone_hidden:
  "OnCadDone cfg now b (set_hidden x y s) = map_sum id (set_hidden x y) (OnCadDone cfg now b s)"
proof (cases b)
  case True
  then show ?thesis by (simp add: OnCadDone_busy sleep_and_rearm_hidden)
next
  case False
  then show ?thesis by (simp add: OnCadDone_free set_hidden_def frame_def)
qed

lemma dispatch_hidden:
  "dispatch cfg now i (set_hidden x y s) = map_sum id (set_hidden x y) (dispatch cfg now i s)"
  by (cases i)
    (simp_all add: OnTxDone_def OnTxTimeout_def OnRxTimeout_def OnRxError_def set_hidden_prims
      sleep_and_rearm_hidden OnRxDone_hidden OnCadDone_hidden)


lemma loraTask_turn_hidden:
  "loraTask_turn cfg now pending (set_hidden x y s) =
     map_sum id (set_hidden x y) (loraTask_turn cfg now pending s)"
proof (cases "loraEvent s")
  case None
  then show ?thesis by (simp add: loraTask_turn_def set_hidden_fields)
next
  case (Some c)
  show ?thesis
  proof (cases c)
    case False
    with Some show ?thesis by (simp add: loraTask_turn_blocked set_hidden_fields)
  next
    case True
    with Some have ev: "loraEvent s = Some True" "loraEvent (set_hidden x y s) = Some True"
      by (simp_all add: set_hidden_fields)
    have st: "set_hidden x y s\<lparr>loraEvent := Some False,
          led := if log_enabled cfg then True else led (set_hidden x y s),
          trace := trace (set_hidden x y s) @ [SemTake LoraEvent portMAX_DELAY] @
            led_events cfg True @ [RadioCall IrqProcessAfterDeepSleep]\<rparr> =
        set_hidden x y (s\<lparr>loraEvent := Some False,
          led := if log_enabled cfg then True else led s,
          trace := trace s @ [SemTake LoraEvent portMAX_DELAY] @
            led_events cfg True @ [RadioCall IrqProcessAfterDeepSleep]\<rparr>)"
      by (simp add: set_hidden_def)
    show ?thesis
      unfolding loraTask_turn_woken [OF ev(1)] loraTask_turn_woken [OF ev(2)] Let_def st
      by (cases pending) (simp_all add: dispatch_hidden)
  qed
qed

lemma sendLoRa_hidden:
  "map_sum id forget (sendLoRa cfg t1 t2 (set_hidden x y s)) =
     map_sum id forget (sendLoRa cfg t1 t2 s)"
proof (cases "loraEvent s")
  case None
  then show ?thesis by (simp add: sendLoRa_None set_hidden_fields)
next
  case (Some c)
  then have ev: "loraEvent (set_hidden x y s) = Some c" by (simp add: set_hidden_fields)
  show ?thesis
    unfolding sendLoRa_Some [OF Some] sendLoRa_Some [OF ev]
    by (simp add: forget_def set_hidden_def)
qed

lemma step_hidden:
  "map_sum id forget (step cfg a (set_hidden x y s)) = map_sum id forget (step cfg a s)"
proof (cases a)
  case Edge
  then show ?thesis by (simp add: loraIntHandler_hidden forget_set_hidden)
next
  case (Turn now pending)
  then show ?thesis
    by (cases "loraTask_turn cfg now pending s")
      (simp_all add: loraTask_turn_hidden forget_set_hidden)
next
  case (Cycle t1 t2)
  then show ?thesis by (simp add: sendLoRa_hidden)
next
  case (Startup sem init_rc task_rc)
  then show ?thesis
    by (cases "initLoRa cfg sem init_rc task_rc s")
      (auto simp add: initLoRa_hidden forget_set_hidden)
qed

lemma step_low:
  assumes "forget s = forget s'"
  shows "map_sum id forget (step cfg a s) = map_sum id forget (step cfg a s')"
proof -
  from forget_eqD [OF assms] obtain x y where "s' = set_hidden x y s" by blast
  then show ?thesis by (simp add: step_hidden)
qed

lemma exec_low:
  "forget s = forget s' \<Longrightarrow> map_sum id forget (exec cfg as s) = map_sum id forget (exec cfg as s')"
proof (induction as arbitrary: s s')
  case Nil
  then show ?case by simp
next
  case (Cons a as)
  from step_low [OF Cons.prems, of cfg a] show ?case
  proof (cases "step cfg a s")
    case (Inl f)
    with \<open>map_sum id forget (step cfg a s) = map_sum id forget (step cfg a s')\<close>
    have "step cfg a s' = Inl f" by (cases "step cfg a s'") simp_all
    with Inl show ?thesis by simp
  next
    case (Inr r)
    with \<open>map_sum id forget (step cfg a s) = map_sum id forget (step cfg a s')\<close>
    obtain r' where r': "step cfg a s' = Inr r'" "forget r = forget r'"
      by (cases "step cfg a s'") simp_all
    from Cons.IH [OF r'(2)] Inr r' show ?thesis by simp
  qed
qed


lemma initLoRa_returns:
  "map_sum id fst (initLoRa cfg (Some c) init_rc task_rc s) = Inr (init_rc \<noteq> 1 \<and> task_rc \<noteq> 0)"
  using initLoRa_Some [of cfg c init_rc task_rc s] by auto


section \<open>The claims\<close>

text \<open>
  Claim C1. Once the semaphore exists, a cycle started by \<open>sendLoRa\<close> and answered by
  \<open>OnCadDone(false)\<close> makes exactly one \<open>Radio.Send\<close>, of the fourteen bytes that this
  \<open>sendLoRa\<close> wrote and with length 14; answered by \<open>OnCadDone(true)\<close> it makes none:
  the sends of the trace are those from before the cycle.
\<close>

theorem sendLoRa_then_OnCadDone:
  assumes "loraEvent s = Some c"
  shows "\<exists>s1. sendLoRa cfg t1 t2 s = Inr s1 \<and>
           frame s1 = [7, 0, 0, 27, 35, 67, 55, 34, 12, 75, 0, 176, 0, 0] \<and>
           (\<exists>s2. OnCadDone cfg now False s1 = Inr s2 \<and>
                  sends s2 = sends s @ [Send (frame s1) 14] \<and> length (frame s1) = 14) \<and>
           (\<exists>s3. OnCadDone cfg now True s1 = Inr s3 \<and> sends s3 = sends s)"
proof -
  let ?s1 = "s\<lparr>loraEvent := Some False, TxdBuffer := fill_TxdBuffer (TxdBuffer s), cadTime := t1,
            channelTimeout := t2, led := (if log_enabled cfg then True else led s), radio := Cad,
            trace := trace s @ sendLoRa_events cfg t1 t2\<rparr>"
  have run: "sendLoRa cfg t1 t2 s = Inr ?s1"
    using assms by (rule sendLoRa_Some)
  have fr: "frame ?s1 = [7, 0, 0, 27, 35, 67, 55, 34, 12, 75, 0, 176, 0, 0]"
    by (simp add: frame_def frame_fill)
  have sends1: "sends ?s1 = sends s"
    by (simp add: sends_def radio_calls_def calls_in_append calls_in_led_events calls_in_sendLoRa_events)
  have free: "\<exists>s2. OnCadDone cfg now False ?s1 = Inr s2 \<and>
                sends s2 = sends s @ [Send (frame ?s1) 14] \<and> length (frame ?s1) = 14"
    unfolding OnCadDone_free using sends1
    by (simp add: sends_def radio_calls_def calls_in_append frame_def)
  have ev: "loraEvent ?s1 = Some False" by simp
  have busy: "\<exists>s3. OnCadDone cfg now True ?s1 = Inr s3 \<and> sends s3 = sends s"
    unfolding OnCadDone_busy sleep_and_rearm_Some [OF ev] using sends1
    by (simp add: sends_def radio_calls_def calls_in_append calls_in_led_events calls_in_sendLoRa_events)
  from run fr free busy show ?thesis by blast
qed

theorem sendLoRa_then_OnCadDone_witness:
  "loraEvent idle_state = Some False \<and>
   (\<exists>s1. sendLoRa default_config 5 6 idle_state = Inr s1 \<and>
      frame s1 = [7, 0, 0, 27, 35, 67, 55, 34, 12, 75, 0, 176, 0, 0] \<and>
      (\<exists>s2. OnCadDone default_config 9 False s1 = Inr s2 \<and>
             sends s2 = sends idle_state @ [Send (frame s1) 14] \<and> length (frame s1) = 14) \<and>
      (\<exists>s3. OnCadDone default_config 9 True s1 = Inr s3 \<and> sends s3 = sends idle_state))"
proof -
  have h: "loraEvent idle_state = Some False"
    by (simp add: idle_state_def power_up_def)
  show ?thesis
    using h sendLoRa_then_OnCadDone [OF h, of default_config 5 6 9] by simp
qed

text \<open>
  Claim C2, as stated: whichever of the six callbacks runs, with whatever argument, the
  radio is Sleeping, the indicator is off and no wake credit is left when it returns.
  This fails for \<open>OnCadDone(false)\<close>: it only calls \<open>Radio.Send\<close>. Run with logging
  compiled in, on a state with the indicator on and a credit outstanding, it leaves the
  radio Sending, the indicator on and the credit in place.
\<close>

theorem OnCadDone_free_not_sleeping:
  "map_sum id radio (dispatch logging_config 9 (CadDone False) cad_running) = Inr Sending \<and>
   map_sum id led (dispatch logging_config 9 (CadDone False) cad_running) = Inr True \<and>
   map_sum id loraEvent (dispatch logging_config 9 (CadDone False) cad_running) = Inr (Some True)"
  by (simp add: OnCadDone_free cad_running_def power_up_def)

text \<open>
  Claim C2, amended. Once the semaphore exists, each of \<open>OnTxDone\<close>, \<open>OnRxDone\<close>,
  \<open>OnTxTimeout\<close>, \<open>OnRxTimeout\<close>, \<open>OnRxError\<close> and \<open>OnCadDone(true)\<close> returns with the
  radio Sleeping, no wake credit left, and the indicator switched off when the indicator
  code is compiled in (untouched when it is not); for \<open>OnRxDone\<close> with logging compiled
  in this needs a payload that fits the log buffer. \<open>OnCadDone(false)\<close> instead calls
  \<open>Radio.Send\<close> with the frame and returns with the radio Sending, and with the
  indicator and the semaphore as it found them.
\<close>

theorem callbacks_postcondition:
  assumes "loraEvent s = Some c" and "i \<noteq> CadDone False" and "irq_fits cfg i"
  shows "(\<exists>s'. dispatch cfg now i s = Inr s' \<and> radio s' = Sleeping \<and>
            led s' = (if log_enabled cfg then False else led s) \<and> loraEvent s' = Some False) \<and>
         (\<exists>s'. dispatch cfg now (CadDone False) s = Inr s' \<and> radio s' = Sending \<and>
            led s' = led s \<and> loraEvent s' = loraEvent s \<and>
            sends s' = sends s @ [Send (frame s) 14])"
proof
  show "\<exists>s'. dispatch cfg now i s = Inr s' \<and> radio s' = Sleeping \<and>
            led s' = (if log_enabled cfg then False else led s) \<and> loraEvent s' = Some False"
    using assms by (rule dispatch_post)
  show "\<exists>s'. dispatch cfg now (CadDone False) s = Inr s' \<and> radio s' = Sending \<and>
            led s' = led s \<and> loraEvent s' = loraEvent s \<and>
            sends s' = sends s @ [Send (frame s) 14]"
    by (simp add: OnCadDone_free sends_def radio_calls_def calls_in_append)
qed

theorem callbacks_postcondition_witness:
  "loraEvent cad_running = Some True \<and> RxDone [1, 2, 3] 3 186 5 \<noteq> CadDone False \<and>
   irq_fits logging_config (RxDone [1, 2, 3] 3 186 5) \<and>
   (\<exists>s'. dispatch logging_config 9 (RxDone [1, 2, 3] 3 186 5) cad_running = Inr s' \<and>
      radio s' = Sleeping \<and> led s' = False \<and> loraEvent s' = Some False) \<and>
   (\<exists>s'. dispatch logging_config 9 (CadDone False) cad_running = Inr s' \<and> radio s' = Sending \<and>
      led s' = led cad_running \<and> loraEvent s' = loraEvent cad_running \<and>
      sends s' = sends cad_running @ [Send (frame cad_running) 14])"
proof -
  have h1: "loraEvent cad_running = Some True"
    by (simp add: cad_running_def power_up_def)
  have h2: "RxDone [1, 2, 3] 3 186 5 \<noteq> CadDone False" by simp
  have h3: "irq_fits logging_config (RxDone [1, 2, 3] 3 186 5)"
    by (simp add: rcvdData_fits_def)
  have h4: "log_enabled logging_config" by (simp add: logging_config_def)
  show ?thesis
    using h1 h2 h3 h4 callbacks_postcondition [OF h1 h2 h3, of 9] by simp
qed

text \<open>
  Claim C3. Once the semaphore exists: after \<open>sendLoRa\<close> and \<open>OnCadDone(false)\<close> the one
  send of the cycle carries a buffer of 14 bytes, with length argument 14, whose byte 0
  is the device identifier 7; after \<open>sendLoRa\<close> and \<open>OnCadDone(true)\<close> no send was made
  and the radio is Sleeping.
\<close>

theorem cycle_scenarios:
  assumes "loraEvent s = Some c"
  shows "\<exists>s1. sendLoRa cfg t1 t2 s = Inr s1 \<and>
           (\<exists>s2 buf n. OnCadDone cfg now False s1 = Inr s2 \<and>
                  sends s2 = sends s @ [Send buf n] \<and> length buf = 14 \<and> n = 14 \<and> buf ! 0 = 7) \<and>
           (\<exists>s3. OnCadDone cfg now True s1 = Inr s3 \<and> sends s3 = sends s \<and>
                  radio s3 = Sleeping)"
proof -
  obtain s1 where run: "sendLoRa cfg t1 t2 s = Inr s1"
    and s1: "s1 = s\<lparr>loraEvent := Some False, TxdBuffer := fill_TxdBuffer (TxdBuffer s),
            cadTime := t1, channelTimeout := t2,
            led := (if log_enabled cfg then True else led s), radio := Cad,
            trace := trace s @ sendLoRa_events cfg t1 t2\<rparr>"
    using sendLoRa_Some [OF assms] by blast
  have sends1: "sends s1 = sends s"
    by (simp add: s1 sends_def radio_calls_def calls_in_append calls_in_led_events calls_in_sendLoRa_events)
  have fr: "frame s1 = [7, 0, 0, 27, 35, 67, 55, 34, 12, 75, 0, 176, 0, 0]"
    by (simp add: s1 frame_def frame_fill)
  have ev: "loraEvent s1 = Some False" by (simp add: s1)
  have "sends (s1\<lparr>radio := Sending,
            trace := trace s1 @
              (if log_debug cfg
               then [Millis now,
                     Log (''CAD returned channel free after %ldms'' @ [CHR 0x0A])
                       [now - cadTime s1]]
               else []) @
              [RadioCall (Send (frame s1) 14)]\<rparr>) = sends s @ [Send (frame s1) 14]"
    using sends1 by (simp add: sends_def radio_calls_def calls_in_append)
  then have free: "\<exists>s2 buf n. OnCadDone cfg now False s1 = Inr s2 \<and>
                  sends s2 = sends s @ [Send buf n] \<and> length buf = 14 \<and> n = 14 \<and> buf ! 0 = 7"
    unfolding OnCadDone_free using fr by simp
  have busy: "\<exists>s3. OnCadDone cfg now True s1 = Inr s3 \<and> sends s3 = sends s \<and>
                  radio s3 = Sleeping"
    unfolding OnCadDone_busy sleep_and_rearm_Some [OF ev] using sends1
    by (simp add: sends_def radio_calls_def calls_in_append calls_in_led_events calls_in_sendLoRa_events)
  from run free busy show ?thesis by blast
qed

theorem cycle_scenarios_witness:
  "loraEvent idle_state = Some False \<and>
   (\<exists>s1. sendLoRa logging_config 5 6 idle_state = Inr s1 \<and>
      (\<exists>s2 buf n. OnCadDone logging_config 9 False s1 = Inr s2 \<and>
             sends s2 = sends idle_state @ [Send buf n] \<and> length buf = 14 \<and> n = 14 \<and>
             buf ! 0 = 7) \<and>
      (\<exists>s3. OnCadDone logging_config 9 True s1 = Inr s3 \<and> sends s3 = sends idle_state \<and>
             radio s3 = Sleeping))"
proof -
  have h: "loraEvent idle_state = Some False"
    by (simp add: idle_state_def power_up_def)
  show ?thesis
    using h cycle_scenarios [OF h, of logging_config 5 6 9] by simp
qed

text \<open>
  Claim C4. With a \<open>NULL\<close> handle \<open>loraIntHandler\<close> leaves the state as it is.
  Otherwise the one call it makes is the give on \<open>loraEvent\<close>, after which the
  semaphore holds its single credit (also when it already held it); it makes no driver
  call, no take, no delay and no log call, and the radio is as before.
\<close>

theorem loraIntHandler_minimal:
  "loraIntHandler s =
     (case loraEvent s of
        None \<Rightarrow> s
      | Some c \<Rightarrow> s\<lparr>loraEvent := Some True, trace := trace s @ [SemGive LoraEvent]\<rparr>) \<and>
   radio_calls (loraIntHandler s) = radio_calls s \<and> radio (loraIntHandler s) = radio s"
  unfolding loraIntHandler_effect
  by (simp add: radio_calls_def calls_in_append split: option.splits)




text \<open>
  Claim C6. Whatever \<open>TxdBuffer\<close> held before, after \<open>sendLoRa\<close> its first fourteen
  bytes are the fourteen values \<open>sendLoRa\<close> assigns, and the same holds for a second
  invocation that follows: no byte of an earlier content is left in the frame.
\<close>

theorem frame_fully_overwritten:
  assumes "loraEvent s = Some c"
  shows "\<exists>r. sendLoRa cfg t1 t2 (s\<lparr>TxdBuffer := b\<rparr>) = Inr r \<and>
           frame r = [7, 0, 0, 27, 35, 67, 55, 34, 12, 75, 0, 176, 0, 0] \<and>
           (\<exists>r2. sendLoRa cfg' t3 t4 r = Inr r2 \<and>
              frame r2 = [7, 0, 0, 27, 35, 67, 55, 34, 12, 75, 0, 176, 0, 0])"
proof -
  have ev: "loraEvent (s\<lparr>TxdBuffer := b\<rparr>) = Some c" using assms by simp
  obtain r where r: "sendLoRa cfg t1 t2 (s\<lparr>TxdBuffer := b\<rparr>) = Inr r"
    and fr: "frame r = [7, 0, 0, 27, 35, 67, 55, 34, 12, 75, 0, 176, 0, 0]"
    and evr: "loraEvent r = Some False"
    unfolding sendLoRa_Some [OF ev] by (simp add: frame_def frame_fill)
  have "\<exists>r2. sendLoRa cfg' t3 t4 r = Inr r2 \<and>
              frame r2 = [7, 0, 0, 27, 35, 67, 55, 34, 12, 75, 0, 176, 0, 0]"
    unfolding sendLoRa_Some [OF evr] by (simp add: frame_def frame_fill)
  with r fr show ?thesis by blast
qed

theorem frame_fully_overwritten_witness:
  "loraEvent idle_state = Some False \<and>
   (\<exists>r. sendLoRa default_config 5 6 (idle_state\<lparr>TxdBuffer := (\<lambda>_. 255)\<rparr>) = Inr r \<and>
      frame r = [7, 0, 0, 27, 35, 67, 55, 34, 12, 75, 0, 176, 0, 0] \<and>
      (\<exists>r2. sendLoRa logging_config 7 8 r = Inr r2 \<and>
         frame r2 = [7, 0, 0, 27, 35, 67, 55, 34, 12, 75, 0, 176, 0, 0]))"
proof -
  have h: "loraEvent idle_state = Some False"
    by (simp add: idle_state_def power_up_def)
  show ?thesis
    using h frame_fully_overwritten [OF h, of default_config 5 6 "\<lambda>_. 255" logging_config 7 8]
    by simp
qed

text \<open>
  Claim C10. After \<open>sendLoRa\<close>, byte 11 of \<open>TxdBuffer\<close>, assigned \<open>-80\<close>, is the byte
  176, which is \<open>-80\<close> modulo 256; and 176 is byte 11 of the buffer that
  \<open>OnCadDone(false)\<close> then hands to \<open>Radio.Send\<close>.
\<close>

theorem signal_strength_byte:
  assumes "loraEvent s = Some c"
  shows "\<exists>s1. sendLoRa cfg t1 t2 s = Inr s1 \<and>
           TxdBuffer s1 11 = word_of_int (- 80) \<and> unat (TxdBuffer s1 11) = 176 \<and>
           unat (TxdBuffer s1 11) = nat ((- 80) mod 256) \<and>
           (\<exists>s2. OnCadDone cfg now False s1 = Inr s2 \<and>
              (\<exists>buf. last (radio_calls s2) = Send buf 14 \<and> unat (buf ! 11) = 176))"
proof -
  let ?s1 = "s\<lparr>loraEvent := Some False, TxdBuffer := fill_TxdBuffer (TxdBuffer s),
            cadTime := t1, channelTimeout := t2,
            led := (if log_enabled cfg then True else led s), radio := Cad,
            trace := trace s @ sendLoRa_events cfg t1 t2\<rparr>"
  have run: "sendLoRa cfg t1 t2 s = Inr ?s1"
    using assms by (rule sendLoRa_Some)
  have byte: "TxdBuffer ?s1 11 = word_of_int (- 80)"
    by (simp add: fill_TxdBuffer_def)
  have val: "unat (word_of_int (- 80) :: 8 word) = 176" by simp
  have md: "nat ((- 80) mod 256) = 176" by simp
  have fr: "frame ?s1 = [7, 0, 0, 27, 35, 67, 55, 34, 12, 75, 0, 176, 0, 0]"
    by (simp add: frame_def frame_fill)
  have sent: "\<exists>s2. OnCadDone cfg now False ?s1 = Inr s2 \<and>
              (\<exists>buf. last (radio_calls s2) = Send buf 14 \<and> unat (buf ! 11) = 176)"
    unfolding OnCadDone_free fr by (simp add: radio_calls_def calls_in_append)
  from run byte val md sent show ?thesis by (metis (no_types, lifting))
qed

theorem signal_strength_byte_witness:
  "loraEvent idle_state = Some False \<and>
   (\<exists>s1. sendLoRa default_config 5 6 idle_state = Inr s1 \<and>
      TxdBuffer s1 11 = word_of_int (- 80) \<and> unat (TxdBuffer s1 11) = 176 \<and>
      unat (TxdBuffer s1 11) = nat ((- 80) mod 256) \<and>
      (\<exists>s2. OnCadDone default_config 9 False s1 = Inr s2 \<and>
         (\<exists>buf. last (radio_calls s2) = Send buf 14 \<and> unat (buf ! 11) = 176)))"
proof -
  have h: "loraEvent idle_state = Some False"
    by (simp add: idle_state_def power_up_def)
  show ?thesis
    using h signal_strength_byte [OF h, of default_config 5 6 9] by simp
qed

text \<open>
  Claim C7. \<open>initLoRa\<close> tests the result of \<open>xTaskCreate\<close> with \<open>!\<close>, which holds for
  0 only. FreeRTOS reports a task that could not be created as
  \<open>errCOULD_NOT_ALLOCATE_REQUIRED_MEMORY\<close>, which is \<open>-1\<close>: with that result, and a
  driver initialisation that succeeded, \<open>initLoRa\<close> returns \<open>true\<close>.
\<close>

theorem initLoRa_misses_task_failure:
  "map_sum id fst
     (initLoRa default_config (Some False) 0 errCOULD_NOT_ALLOCATE_REQUIRED_MEMORY power_up) =
     Inr True \<and>
   errCOULD_NOT_ALLOCATE_REQUIRED_MEMORY \<noteq> pdPASS"
  by (simp add: initLoRa_returns errCOULD_NOT_ALLOCATE_REQUIRED_MEMORY_def pdPASS_def)




text \<open>
  Claim C9. Two states that differ in \<open>channelTimeout\<close> and \<open>channelFreeRetryNum\<close>
  only are taken by every execution (interrupt edges, loop turns, cycles, start-ups),
  by every callback and by \<open>initLoRa\<close> to results that again differ in these two at
  most: the same fault or return value, the same trace of calls, the same frame, radio
  state and semaphores. And \<open>OnCadDone(true)\<close> makes one driver call, \<open>Radio.Sleep\<close>:
  it neither sends nor starts another detection, and leaves \<open>TxdBuffer\<close> as it is.
\<close>

theorem hidden_markers_never_read:
  assumes "forget s = forget s'" and "loraEvent s = Some c"
  shows "map_sum id forget (exec cfg as s) = map_sum id forget (exec cfg as s') \<and>
         map_sum id forget (dispatch cfg now i s) = map_sum id forget (dispatch cfg now i s') \<and>
         map_sum id (map_prod id forget) (initLoRa cfg sem init_rc task_rc s) =
           map_sum id (map_prod id forget) (initLoRa cfg sem init_rc task_rc s') \<and>
         (\<exists>r. OnCadDone cfg now True s = Inr r \<and> radio_calls r = radio_calls s @ [Sleep] \<and>
              TxdBuffer r = TxdBuffer s \<and> radio r = Sleeping)"
proof (intro conjI)
  show "map_sum id forget (exec cfg as s) = map_sum id forget (exec cfg as s')"
    using assms(1) by (rule exec_low)
next
  from forget_eqD [OF assms(1)] obtain x y where s': "s' = set_hidden x y s" by blast
  show "map_sum id forget (dispatch cfg now i s) = map_sum id forget (dispatch cfg now i s')"
    unfolding s' dispatch_hidden
    by (cases "dispatch cfg now i s") (simp_all add: forget_set_hidden)
  show "map_sum id (map_prod id forget) (initLoRa cfg sem init_rc task_rc s) =
           map_sum id (map_prod id forget) (initLoRa cfg sem init_rc task_rc s')"
    unfolding s' initLoRa_hidden
    by (cases "initLoRa cfg sem init_rc task_rc s") (auto simp add: forget_set_hidden)
next
  show "\<exists>r. OnCadDone cfg now True s = Inr r \<and> radio_calls r = radio_calls s @ [Sleep] \<and>
              TxdBuffer r = TxdBuffer s \<and> radio r = Sleeping"
    unfolding OnCadDone_busy sleep_and_rearm_Some [OF assms(2)]
    by (simp add: radio_calls_def calls_in_append calls_in_led_events calls_in_sendLoRa_events)
qed

theorem hidden_markers_never_read_witness:
  "forget idle_state = forget idle_state_marked \<and> loraEvent idle_state = Some False \<and>
   map_sum id forget (exec logging_config busy_day idle_state) =
     map_sum id forget (exec logging_config busy_day idle_state_marked) \<and>
   map_sum id forget (dispatch logging_config 9 (CadDone True) idle_state) =
     map_sum id forget (dispatch logging_config 9 (CadDone True) idle_state_marked) \<and>
   map_sum id (map_prod id forget) (initLoRa logging_config (Some False) 0 pdPASS idle_state) =
     map_sum id (map_prod id forget)
       (initLoRa logging_config (Some False) 0 pdPASS idle_state_marked) \<and>
   (\<exists>r. OnCadDone logging_config 9 True idle_state = Inr r \<and>
      radio_calls r = radio_calls idle_state @ [Sleep] \<and>
      TxdBuffer r = TxdBuffer idle_state \<and> radio r = Sleeping)"
proof -
  have h1: "forget idle_state = forget idle_state_marked"
    by (simp add: forget_def idle_state_marked_def)
  have h2: "loraEvent idle_state = Some False"
    by (simp add: idle_state_def power_up_def)
  from hidden_markers_never_read [OF h1 h2, of logging_config busy_day 9 "CadDone True"
      "Some False" 0 pdPASS] h1 h2
  show ?thesis by simp
qed

end
